theory Spec2Isabelle
  imports Complex_Main "HOL-Library.Word" "HOL-Library.Sublist"
begin

section \<open>The standard output stream\<close>

text \<open>
  Both programs of the repository (\<^verbatim>\<open>lesson1_variables.cpp\<close> and
  \<^verbatim>\<open>exercise1_personal_info.cpp\<close>) are a single \<^verbatim>\<open>main\<close> that inserts operands
  into \<^verbatim>\<open>std::cout\<close> and returns 0. The stream is modelled as explicit state: the
  sequence of operands inserted so far, each kept with the formatting state
  it was inserted under, and the three formatting settings the programs touch
  (\<^verbatim>\<open>std::fixed\<close>, \<^verbatim>\<open>std::setprecision\<close>, \<^verbatim>\<open>std::boolalpha\<close>).

  Integer operands are recorded by their value. Floating-point operands
  (\<^verbatim>\<open>float\<close>, \<^verbatim>\<open>double\<close>, \<^verbatim>\<open>long double\<close>) are recorded as the real number the
  source expression denotes, together with the float field and the precision
  in force; binary rounding and the digits the library prints for them are
  not part of the model.
\<close>

datatype floatfield = ff_general | ff_fixed

datatype item =
    Str string                  \<comment> \<open>a string literal or \<^verbatim>\<open>std::string\<close>\<close>
  | Chr char                    \<comment> \<open>a \<^verbatim>\<open>char\<close>\<close>
  | IntV int                    \<comment> \<open>an integer of any width, by value\<close>
  | BoolV bool bool             \<comment> \<open>\<^verbatim>\<open>boolalpha\<close> in force, the value\<close>
  | DblV floatfield nat real    \<comment> \<open>float field and precision in force, the value\<close>
  | Endl                        \<comment> \<open>\<^verbatim>\<open>std::endl\<close>: newline and flush\<close>

record ostream =
  out :: "item list"
  ffield :: floatfield
  precision :: nat
  boolalpha :: bool

text \<open>\<^verbatim>\<open>std::cout\<close> when \<^verbatim>\<open>main\<close> starts: nothing written, general float field,
  precision 6, booleans as 1/0.\<close>

definition cout :: ostream where
  "cout = \<lparr>out = [], ffield = ff_general, precision = 6, boolalpha = False\<rparr>"

text \<open>The overloads of \<^verbatim>\<open>operator<<\<close> the programs use.\<close>

definition ins_str :: "string \<Rightarrow> ostream \<Rightarrow> ostream" where
  "ins_str t os = os\<lparr>out := out os @ [Str t]\<rparr>"

definition ins_char :: "char \<Rightarrow> ostream \<Rightarrow> ostream" where
  "ins_char c os = os\<lparr>out := out os @ [Chr c]\<rparr>"

text \<open>Signed integers (\<^verbatim>\<open>short\<close>, \<^verbatim>\<open>int\<close>, \<^verbatim>\<open>long\<close>, \<^verbatim>\<open>long long\<close>) are machine
  words read in two's complement.\<close>

definition ins_int :: "'a::len word \<Rightarrow> ostream \<Rightarrow> ostream" where
  "ins_int w os = os\<lparr>out := out os @ [IntV (sint w)]\<rparr>"

text \<open>\<^verbatim>\<open>std::string::length()\<close> is a \<^verbatim>\<open>size_t\<close>, unsigned.\<close>

definition ins_size :: "nat \<Rightarrow> ostream \<Rightarrow> ostream" where
  "ins_size n os = os\<lparr>out := out os @ [IntV (int n)]\<rparr>"

definition ins_bool :: "bool \<Rightarrow> ostream \<Rightarrow> ostream" where
  "ins_bool b os = os\<lparr>out := out os @ [BoolV (boolalpha os) b]\<rparr>"

definition ins_double :: "real \<Rightarrow> ostream \<Rightarrow> ostream" where
  "ins_double x os = os\<lparr>out := out os @ [DblV (ffield os) (precision os) x]\<rparr>"

definition endl :: "ostream \<Rightarrow> ostream" where
  "endl os = os\<lparr>out := out os @ [Endl]\<rparr>"

text \<open>The manipulators: they write nothing and stay in force until changed.\<close>

definition fixed_manip :: "ostream \<Rightarrow> ostream" where
  "fixed_manip os = os\<lparr>ffield := ff_fixed\<rparr>"

definition setprecision :: "nat \<Rightarrow> ostream \<Rightarrow> ostream" where
  "setprecision n os = os\<lparr>precision := n\<rparr>"

definition boolalpha_manip :: "ostream \<Rightarrow> ostream" where
  "boolalpha_manip os = os\<lparr>boolalpha := True\<rparr>"

text \<open>A statement sequence is run left to right on the stream.\<close>

definition run :: "(ostream \<Rightarrow> ostream) list \<Rightarrow> ostream \<Rightarrow> ostream" where
  "run ops os = fold (\<lambda>f s. f s) ops os"

text \<open>The output read as lines: the operands between two \<^verbatim>\<open>std::endl\<close>.
  Operands after the last \<^verbatim>\<open>std::endl\<close> would form an unterminated last line.\<close>

fun lines_from :: "item list \<Rightarrow> item list \<Rightarrow> item list list" where
  "lines_from cur [] = (if cur = [] then [] else [cur])"
| "lines_from cur (Endl # xs) = cur # lines_from [] xs"
| "lines_from cur (x # xs) = lines_from (cur @ [x]) xs"

definition lines_of :: "ostream \<Rightarrow> item list list" where
  "lines_of os = lines_from [] (out os)"

section \<open>Component B: exercise1\_personal\_info.cpp\<close>

text \<open>The variables a reader is asked to edit (source lines 10 to 16).
  \<^verbatim>\<open>int\<close> is 32 bits wide; its arithmetic wraps around.\<close>

record personal_info =
  name :: string
  age :: "32 word"
  height :: real
  grade :: char
  isLearning :: bool
  hobby :: string
  COUNTRY :: string

definition exercise1_defaults :: personal_info where
  "exercise1_defaults =
     \<lparr>name = ''Your Name Here'', age = 0, height = 0.0, grade = CHR ''A'',
      isLearning = True, hobby = ''Your favorite hobby'', COUNTRY = ''Your Country''\<rparr>"

text \<open>The three non-ASCII string prefixes, as the UTF-8 bytes of the source file.\<close>

definition clipboard_emoji :: string where
  "clipboard_emoji = [CHR 0xF0, CHR 0x9F, CHR 0x93, CHR 0x8B]"

definition numbers_emoji :: string where
  "numbers_emoji = [CHR 0xF0, CHR 0x9F, CHR 0x94, CHR 0xA2]"

definition check_emoji :: string where
  "check_emoji = [CHR 0xE2, CHR 0x9C, CHR 0x85]"

definition exercise1_closing :: string where
  "exercise1_closing =
     check_emoji @ '' Exercise 1 complete! Great job practicing with variables!''"

text \<open>\<^verbatim>\<open>main\<close>, statement by statement (source lines 5 to 43). It takes the
  stream it writes to and returns the stream afterwards with the exit status;
  a run of the program is \<open>exercise1_main p cout\<close>.\<close>

definition exercise1_main :: "personal_info \<Rightarrow> ostream \<Rightarrow> ostream \<times> int" where
  "exercise1_main p os =
    (let birthYear = 2025 - age p;
         heightInCm = height p * 100
     in (run
       [ins_str ''=== Exercise 1: Personal Information Program ==='', endl,
        ins_str ''Fill in your own information by modifying the variables below:'', endl,
        endl,
        ins_str (clipboard_emoji @ '' Personal Information:''), endl,
        ins_str ''Name: '', ins_str (name p), endl,
        ins_str ''Age: '', ins_int (age p), ins_str '' years old'', endl,
        ins_str ''Approximate birth year: '', ins_int birthYear, endl,
        ins_str ''Height: '', ins_double (height p), ins_str ''m ('',
          ins_double heightInCm, ins_str ''cm)'', endl,
        ins_str ''Favorite grade: '', ins_char (grade p), endl,
        ins_str ''Currently learning C++: '',
          ins_str (if isLearning p then ''Yes!'' else ''No''), endl,
        ins_str ''Favorite hobby: '', ins_str (hobby p), endl,
        ins_str ''Country: '', ins_str (COUNTRY p), endl,
        endl,
        ins_str (numbers_emoji @ '' Fun Calculations:''), endl,
        ins_str ''Days lived (approximately): '', ins_int (age p * 365),
          ins_str '' days'', endl,
        ins_str ''Height in inches (approximately): '', ins_double (height p * 39.37),
          ins_str '' inches'', endl,
        ins_str ''Name length: '', ins_size (length (name p)),
          ins_str '' characters'', endl,
        endl,
        ins_str exercise1_closing, endl]
       os, 0))"

section \<open>Component A: lesson1\_variables.cpp\<close>

text \<open>One field per variable the program declares with a literal (source
  lines 11 to 90). \<^verbatim>\<open>short\<close> is 16 bits wide, \<^verbatim>\<open>int\<close> 32, \<^verbatim>\<open>long\<close> and
  \<^verbatim>\<open>long long\<close> 64. The program's \<^verbatim>\<open>age\<close> and \<^verbatim>\<open>grade\<close> are the fields
  \<open>lesson_age\<close> and \<open>lesson_grade\<close>; \<^verbatim>\<open>fullName\<close> is computed from
  \<^verbatim>\<open>firstName\<close> and \<^verbatim>\<open>lastName\<close>.\<close>

record lesson1_samples =
  lesson_age :: "32 word"
  smallNumber :: "16 word"
  largeNumber :: "64 word"
  veryLarge :: "64 word"
  price :: real
  distance :: real
  precise :: real
  lesson_grade :: char
  symbol :: char
  isStudent :: bool
  hasLicense :: bool
  firstName :: string
  lastName :: string
  PI :: real
  DAYS_IN_WEEK :: "32 word"
  autoInt :: "32 word"
  autoDouble :: real
  autoString :: string
  globalVar :: "32 word"
  localVar :: "32 word"

definition lesson1_defaults :: lesson1_samples where
  "lesson1_defaults =
     \<lparr>lesson_age = 25, smallNumber = 100, largeNumber = 1000000,
      veryLarge = 123456789012345,
      price = 19.99, distance = 384400.5, precise = 3.14159265358979323846,
      lesson_grade = CHR ''A'', symbol = CHR ''$'',
      isStudent = True, hasLicense = False,
      firstName = ''John'', lastName = ''Doe'',
      PI = 3.14159, DAYS_IN_WEEK = 7,
      autoInt = 42, autoDouble = 3.14, autoString = ''Hello'',
      globalVar = 100, localVar = 200\<rparr>"

definition squote :: string where
  "squote = [CHR 0x27]"

definition dquote :: string where
  "dquote = [CHR 0x22]"

definition party_emoji :: string where
  "party_emoji = [CHR 0xF0, CHR 0x9F, CHR 0x8E, CHR 0x89]"

definition lesson1_closing :: string where
  "lesson1_closing =
     party_emoji @ '' Lesson 1 Complete! Try modifying the values and recompiling.''"

text \<open>Source lines 6 to 88: everything up to the opening brace of the block.\<close>

definition lesson1_before_block :: "lesson1_samples \<Rightarrow> (ostream \<Rightarrow> ostream) list" where
  "lesson1_before_block v =
    (let fullName = firstName v @ '' '' @ lastName v
     in
       [ins_str ''=== C++ Lesson 1: Variables and Data Types ==='', endl,
        endl,
        ins_str ''1. INTEGER TYPES:'', endl,
        ins_str ''int age = '', ins_int (lesson_age v), endl,
        ins_str ''short smallNumber = '', ins_int (smallNumber v), endl,
        ins_str ''long largeNumber = '', ins_int (largeNumber v), endl,
        ins_str ''long long veryLarge = '', ins_int (veryLarge v), endl,
        endl,
        ins_str ''2. FLOATING POINT TYPES:'', endl,
        fixed_manip, setprecision 2,
        ins_str ''float price = $'', ins_double (price v), endl,
        ins_str ''double distance = '', ins_double (distance v), ins_str '' km'', endl,
        setprecision 10,
        ins_str ''long double precise = '', ins_double (precise v), endl,
        endl,
        ins_str ''3. CHARACTER TYPE:'', endl,
        ins_str (''char grade = '' @ squote), ins_char (lesson_grade v), ins_str squote, endl,
        ins_str (''char symbol = '' @ squote), ins_char (symbol v), ins_str squote, endl,
        endl,
        ins_str ''4. BOOLEAN TYPE:'', endl,
        boolalpha_manip,
        ins_str ''bool isStudent = '', ins_bool (isStudent v), endl,
        ins_str ''bool hasLicense = '', ins_bool (hasLicense v), endl,
        endl,
        ins_str ''5. STRING TYPE:'', endl,
        ins_str (''std::string firstName = '' @ dquote), ins_str (firstName v),
          ins_str dquote, endl,
        ins_str (''std::string lastName = '' @ dquote), ins_str (lastName v),
          ins_str dquote, endl,
        ins_str (''std::string fullName = '' @ dquote), ins_str fullName,
          ins_str dquote, endl,
        ins_str ''String length: '', ins_size (length fullName),
          ins_str '' characters'', endl,
        endl,
        ins_str ''6. CONSTANTS:'', endl,
        ins_str ''const double PI = '', ins_double (PI v), endl,
        ins_str ''const int DAYS_IN_WEEK = '', ins_int (DAYS_IN_WEEK v), endl,
        endl,
        ins_str ''7. AUTO KEYWORD (Modern C++):'', endl,
        ins_str ''auto autoInt = '', ins_int (autoInt v), ins_str '' (type: int)'', endl,
        ins_str ''auto autoDouble = '', ins_double (autoDouble v),
          ins_str '' (type: double)'', endl,
        ins_str (''auto autoString = '' @ dquote), ins_str (autoString v),
          ins_str (dquote @ '' (type: string)''), endl,
        endl,
        ins_str ''8. VARIABLE SCOPE:'', endl])"

text \<open>Source lines 89 to 93: the block. It sees the outer \<^verbatim>\<open>globalVar\<close> and
  declares \<^verbatim>\<open>localVar\<close>, which lives until the closing brace.\<close>

definition scope_block :: "32 word \<Rightarrow> 32 word \<Rightarrow> (ostream \<Rightarrow> ostream) list" where
  "scope_block globalVar_outer localVar_init =
    (let localVar = localVar_init
     in
       [ins_str ''Inside block - globalVar: '', ins_int globalVar_outer, endl,
        ins_str ''Inside block - localVar: '', ins_int localVar, endl])"

text \<open>Source lines 95 to 98: after the closing brace, where only
  \<^verbatim>\<open>globalVar\<close> is still in scope.\<close>

definition lesson1_after_block :: "32 word \<Rightarrow> (ostream \<Rightarrow> ostream) list" where
  "lesson1_after_block globalVar_outer =
     [ins_str ''Outside block - globalVar: '', ins_int globalVar_outer, endl,
      endl,
      ins_str lesson1_closing, endl]"

text \<open>\<^verbatim>\<open>main\<close> (source lines 5 to 101); a run of the program is
  \<open>lesson1_main v cout\<close>.\<close>

definition lesson1_main :: "lesson1_samples \<Rightarrow> ostream \<Rightarrow> ostream \<times> int" where
  "lesson1_main v os =
     (run (lesson1_before_block v
           @ scope_block (globalVar v) (localVar v)
           @ lesson1_after_block (globalVar v)) os, 0)"

section \<open>Reading the output\<close>

text \<open>The position of the first line that starts with a given label
  (the number of lines when there is none).\<close>

fun line_of :: "string \<Rightarrow> item list list \<Rightarrow> nat" where
  "line_of lab [] = 0"
| "line_of lab (l # ls) = (if take 1 l = [Str lab] then 0 else Suc (line_of lab ls))"

text \<open>A line mentions an identifier when one of its string operands
  contains it.\<close>

fun is_infix :: "string \<Rightarrow> string \<Rightarrow> bool" where
  "is_infix x [] = (x = [])"
| "is_infix x (c # cs) = (prefix x (c # cs) \<or> is_infix x cs)"

fun mentions :: "string \<Rightarrow> item list \<Rightarrow> bool" where
  "mentions x [] = False"
| "mentions x (Str t # xs) = (is_infix x t \<or> mentions x xs)"
| "mentions x (y # xs) = mentions x xs"

definition labelled_lines :: "string \<Rightarrow> item list list \<Rightarrow> nat" where
  "labelled_lines x ls = length (filter (mentions x) ls)"

text \<open>What a run of each program, started on \<open>cout\<close>, prints, as lines.\<close>

definition exercise1_lines :: "personal_info \<Rightarrow> item list list" where
  "exercise1_lines p = lines_of (fst (exercise1_main p cout))"

definition lesson1_lines :: "lesson1_samples \<Rightarrow> item list list" where
  "lesson1_lines v = lines_of (fst (lesson1_main v cout))"

text \<open>The stream of a run of Component A when control reaches the opening
  brace of the block (source line 89), and when it leaves the block at the
  closing brace (source line 93).\<close>

definition at_block_entry :: "lesson1_samples \<Rightarrow> ostream" where
  "at_block_entry v = run (lesson1_before_block v) cout"

definition at_block_exit :: "lesson1_samples \<Rightarrow> ostream" where
  "at_block_exit v = run (scope_block (globalVar v) (localVar v)) (at_block_entry v)"

section \<open>Evaluation lemmas\<close>

lemmas ins_defs =
  ins_str_def ins_char_def ins_int_def ins_size_def ins_bool_def ins_double_def endl_def
  fixed_manip_def setprecision_def boolalpha_manip_def

lemma run_append: "run (xs @ ys) os = run ys (run xs os)"
  by (simp add: run_def)

lemma exercise1_out:
  "out (fst (exercise1_main p os)) = out os @
     [Str ''=== Exercise 1: Personal Information Program ==='', Endl,
      Str ''Fill in your own information by modifying the variables below:'', Endl,
      Endl,
      Str (clipboard_emoji @ '' Personal Information:''), Endl,
      Str ''Name: '', Str (name p), Endl,
      Str ''Age: '', IntV (sint (age p)), Str '' years old'', Endl,
      Str ''Approximate birth year: '', IntV (sint (2025 - age p)), Endl,
      Str ''Height: '', DblV (ffield os) (precision os) (height p), Str ''m ('',
        DblV (ffield os) (precision os) (height p * 100), Str ''cm)'', Endl,
      Str ''Favorite grade: '', Chr (grade p), Endl,
      Str ''Currently learning C++: '', Str (if isLearning p then ''Yes!'' else ''No''), Endl,
      Str ''Favorite hobby: '', Str (hobby p), Endl,
      Str ''Country: '', Str (COUNTRY p), Endl,
      Endl,
      Str (numbers_emoji @ '' Fun Calculations:''), Endl,
      Str ''Days lived (approximately): '', IntV (sint (age p * 365)), Str '' days'', Endl,
      Str ''Height in inches (approximately): '',
        DblV (ffield os) (precision os) (height p * 39.37), Str '' inches'', Endl,
      Str ''Name length: '', IntV (int (length (name p))), Str '' characters'', Endl,
      Endl,
      Str exercise1_closing, Endl]"
  by (simp add: exercise1_main_def run_def ins_defs Let_def)

lemma exercise1_flags:
  "ffield (fst (exercise1_main p os)) = ffield os"
  "precision (fst (exercise1_main p os)) = precision os"
  "boolalpha (fst (exercise1_main p os)) = boolalpha os"
  by (simp_all add: exercise1_main_def run_def ins_defs Let_def)

lemma before_block_out:
  "out (run (lesson1_before_block v) os) = out os @
     [Str ''=== C++ Lesson 1: Variables and Data Types ==='', Endl,
      Endl,
      Str ''1. INTEGER TYPES:'', Endl,
      Str ''int age = '', IntV (sint (lesson_age v)), Endl,
      Str ''short smallNumber = '', IntV (sint (smallNumber v)), Endl,
      Str ''long largeNumber = '', IntV (sint (largeNumber v)), Endl,
      Str ''long long veryLarge = '', IntV (sint (veryLarge v)), Endl,
      Endl,
      Str ''2. FLOATING POINT TYPES:'', Endl,
      Str ''float price = $'', DblV ff_fixed 2 (price v), Endl,
      Str ''double distance = '', DblV ff_fixed 2 (distance v), Str '' km'', Endl,
      Str ''long double precise = '', DblV ff_fixed 10 (precise v), Endl,
      Endl,
      Str ''3. CHARACTER TYPE:'', Endl,
      Str (''char grade = '' @ squote), Chr (lesson_grade v), Str squote, Endl,
      Str (''char symbol = '' @ squote), Chr (symbol v), Str squote, Endl,
      Endl,
      Str ''4. BOOLEAN TYPE:'', Endl,
      Str ''bool isStudent = '', BoolV True (isStudent v), Endl,
      Str ''bool hasLicense = '', BoolV True (hasLicense v), Endl,
      Endl,
      Str ''5. STRING TYPE:'', Endl,
      Str (''std::string firstName = '' @ dquote), Str (firstName v), Str dquote, Endl,
      Str (''std::string lastName = '' @ dquote), Str (lastName v), Str dquote, Endl,
      Str (''std::string fullName = '' @ dquote), Str (firstName v @ '' '' @ lastName v),
        Str dquote, Endl,
      Str ''String length: '', IntV (int (length (firstName v @ '' '' @ lastName v))),
        Str '' characters'', Endl,
      Endl,
      Str ''6. CONSTANTS:'', Endl,
      Str ''const double PI = '', DblV ff_fixed 10 (PI v), Endl,
      Str ''const int DAYS_IN_WEEK = '', IntV (sint (DAYS_IN_WEEK v)), Endl,
      Endl,
      Str ''7. AUTO KEYWORD (Modern C++):'', Endl,
      Str ''auto autoInt = '', IntV (sint (autoInt v)), Str '' (type: int)'', Endl,
      Str ''auto autoDouble = '', DblV ff_fixed 10 (autoDouble v), Str '' (type: double)'', Endl,
      Str (''auto autoString = '' @ dquote), Str (autoString v),
        Str (dquote @ '' (type: string)''), Endl,
      Endl,
      Str ''8. VARIABLE SCOPE:'', Endl]"
  by (simp add: lesson1_before_block_def run_def ins_defs Let_def)

lemma before_block_flags:
  "ffield (run (lesson1_before_block v) os) = ff_fixed"
  "precision (run (lesson1_before_block v) os) = 10"
  "boolalpha (run (lesson1_before_block v) os) = True"
  by (simp_all add: lesson1_before_block_def run_def ins_defs Let_def)

lemma scope_block_out:
  "out (run (scope_block g l) os) = out os @
     [Str ''Inside block - globalVar: '', IntV (sint g), Endl,
      Str ''Inside block - localVar: '', IntV (sint l), Endl]"
  by (simp add: scope_block_def run_def ins_defs Let_def)

lemma after_block_out:
  "out (run (lesson1_after_block g) os) = out os @
     [Str ''Outside block - globalVar: '', IntV (sint g), Endl,
      Endl,
      Str lesson1_closing, Endl]"
  by (simp add: lesson1_after_block_def run_def ins_defs)

lemma exercise1_status: "snd (exercise1_main p os) = 0"
  by (simp add: exercise1_main_def Let_def)

lemma lesson1_status: "snd (lesson1_main v os) = 0"
  by (simp add: lesson1_main_def)

lemma lesson1_main_split:
  "lesson1_main v cout = (run (lesson1_after_block (globalVar v)) (at_block_exit v), 0)"
  by (simp add: lesson1_main_def run_append at_block_exit_def at_block_entry_def)

lemma lesson1_out:
  "out (fst (lesson1_main v os)) =
     out (run (lesson1_before_block v) os)
     @ [Str ''Inside block - globalVar: '', IntV (sint (globalVar v)), Endl,
        Str ''Inside block - localVar: '', IntV (sint (localVar v)), Endl]
     @ [Str ''Outside block - globalVar: '', IntV (sint (globalVar v)), Endl,
        Endl,
        Str lesson1_closing, Endl]"
  by (simp add: lesson1_main_def run_append scope_block_out after_block_out)

lemma exercise1_lines_eq:
  "exercise1_lines p =
     [[Str ''=== Exercise 1: Personal Information Program ===''],
      [Str ''Fill in your own information by modifying the variables below:''],
      [],
      [Str (clipboard_emoji @ '' Personal Information:'')],
      [Str ''Name: '', Str (name p)],
      [Str ''Age: '', IntV (sint (age p)), Str '' years old''],
      [Str ''Approximate birth year: '', IntV (sint (2025 - age p))],
      [Str ''Height: '', DblV ff_general 6 (height p), Str ''m ('',
        DblV ff_general 6 (height p * 100), Str ''cm)''],
      [Str ''Favorite grade: '', Chr (grade p)],
      [Str ''Currently learning C++: '', Str (if isLearning p then ''Yes!'' else ''No'')],
      [Str ''Favorite hobby: '', Str (hobby p)],
      [Str ''Country: '', Str (COUNTRY p)],
      [],
      [Str (numbers_emoji @ '' Fun Calculations:'')],
      [Str ''Days lived (approximately): '', IntV (sint (age p * 365)), Str '' days''],
      [Str ''Height in inches (approximately): '', DblV ff_general 6 (height p * 39.37),
        Str '' inches''],
      [Str ''Name length: '', IntV (int (length (name p))), Str '' characters''],
      [],
      [Str exercise1_closing]]"
  by (simp add: exercise1_lines_def lines_of_def exercise1_out cout_def)

lemma lesson1_lines_eq:
  "lesson1_lines v =
     [[Str ''=== C++ Lesson 1: Variables and Data Types ===''],
      [],
      [Str ''1. INTEGER TYPES:''],
      [Str ''int age = '', IntV (sint (lesson_age v))],
      [Str ''short smallNumber = '', IntV (sint (smallNumber v))],
      [Str ''long largeNumber = '', IntV (sint (largeNumber v))],
      [Str ''long long veryLarge = '', IntV (sint (veryLarge v))],
      [],
      [Str ''2. FLOATING POINT TYPES:''],
      [Str ''float price = $'', DblV ff_fixed 2 (price v)],
      [Str ''double distance = '', DblV ff_fixed 2 (distance v), Str '' km''],
      [Str ''long double precise = '', DblV ff_fixed 10 (precise v)],
      [],
      [Str ''3. CHARACTER TYPE:''],
      [Str (''char grade = '' @ squote), Chr (lesson_grade v), Str squote],
      [Str (''char symbol = '' @ squote), Chr (symbol v), Str squote],
      [],
      [Str ''4. BOOLEAN TYPE:''],
      [Str ''bool isStudent = '', BoolV True (isStudent v)],
      [Str ''bool hasLicense = '', BoolV True (hasLicense v)],
      [],
      [Str ''5. STRING TYPE:''],
      [Str (''std::string firstName = '' @ dquote), Str (firstName v), Str dquote],
      [Str (''std::string lastName = '' @ dquote), Str (lastName v), Str dquote],
      [Str (''std::string fullName = '' @ dquote), Str (firstName v @ '' '' @ lastName v),
        Str dquote],
      [Str ''String length: '', IntV (int (length (firstName v @ '' '' @ lastName v))),
        Str '' characters''],
      [],
      [Str ''6. CONSTANTS:''],
      [Str ''const double PI = '', DblV ff_fixed 10 (PI v)],
      [Str ''const int DAYS_IN_WEEK = '', IntV (sint (DAYS_IN_WEEK v))],
      [],
      [Str ''7. AUTO KEYWORD (Modern C++):''],
      [Str ''auto autoInt = '', IntV (sint (autoInt v)), Str '' (type: int)''],
      [Str ''auto autoDouble = '', DblV ff_fixed 10 (autoDouble v), Str '' (type: double)''],
      [Str (''auto autoString = '' @ dquote), Str (autoString v),
        Str (dquote @ '' (type: string)'')],
      [],
      [Str ''8. VARIABLE SCOPE:''],
      [Str ''Inside block - globalVar: '', IntV (sint (globalVar v))],
      [Str ''Inside block - localVar: '', IntV (sint (localVar v))],
      [Str ''Outside block - globalVar: '', IntV (sint (globalVar v))],
      [],
      [Str lesson1_closing]]"
  by (simp add: lesson1_lines_def lines_of_def lesson1_out before_block_out cout_def)


section \<open>Component B: the claims\<close>

text \<open>
  Claim C1 (holds except for the name length). Run with the placeholder values
  of the source (name \<^verbatim>\<open>"Your Name Here"\<close>, age 0, height 0.0), Component B
  prints birth year 2025, height in centimetres 0, days lived 0 and height in
  inches 0; the name length it prints is 14, the number of characters of
  \<^verbatim>\<open>"Your Name Here"\<close>.
\<close>

theorem exercise1_default_values:
  "exercise1_lines exercise1_defaults ! 6 = [Str ''Approximate birth year: '', IntV 2025]
   \<and> exercise1_lines exercise1_defaults ! 7 =
       [Str ''Height: '', DblV ff_general 6 0.0, Str ''m ('', DblV ff_general 6 0.0, Str ''cm)'']
   \<and> exercise1_lines exercise1_defaults ! 14 =
       [Str ''Days lived (approximately): '', IntV 0, Str '' days'']
   \<and> exercise1_lines exercise1_defaults ! 15 =
       [Str ''Height in inches (approximately): '', DblV ff_general 6 0.0, Str '' inches'']
   \<and> exercise1_lines exercise1_defaults ! 16 =
       [Str ''Name length: '', IntV 14, Str '' characters'']"
  by (simp add: exercise1_lines_eq exercise1_defaults_def)

text \<open>The name-length line of the default run does not show 15: the name has
  14 characters.\<close>

theorem exercise1_default_name_length_counterexample:
  "length (name exercise1_defaults) = 14
   \<and> exercise1_lines exercise1_defaults ! 16 \<noteq>
       [Str ''Name length: '', IntV 15, Str '' characters'']"
  by (simp add: exercise1_lines_eq exercise1_defaults_def)

text \<open>
  Claim C2 (holds in part). For every personal record, Component B prints the
  name and age lines, then the birth-year line, then the height line, which
  carries the height in centimetres as well, then the grade, learning, hobby
  and country lines. The days-lived and height-in-inches lines come after all
  of these, and the name-length line comes after those two. So two of the four
  derived metrics are printed among the personal-record lines, not after them.
\<close>

theorem exercise1_line_order:
  "map (\<lambda>lab. line_of lab (exercise1_lines p))
      [''Name: '', ''Age: '', ''Approximate birth year: '', ''Height: '', ''Favorite grade: '',
       ''Currently learning C++: '', ''Favorite hobby: '', ''Country: '',
       ''Days lived (approximately): '', ''Height in inches (approximately): '',
       ''Name length: '']
    = [4, 5, 6, 7, 8, 9, 10, 11, 14, 15, 16]
   \<and> exercise1_lines p ! 6 = [Str ''Approximate birth year: '', IntV (sint (2025 - age p))]
   \<and> exercise1_lines p ! 7 =
       [Str ''Height: '', DblV ff_general 6 (height p), Str ''m ('',
        DblV ff_general 6 (height p * 100), Str ''cm)'']
   \<and> exercise1_lines p ! 14 =
       [Str ''Days lived (approximately): '', IntV (sint (age p * 365)), Str '' days'']
   \<and> exercise1_lines p ! 15 =
       [Str ''Height in inches (approximately): '', DblV ff_general 6 (height p * 39.37),
        Str '' inches'']
   \<and> exercise1_lines p ! 16 =
       [Str ''Name length: '', IntV (int (length (name p))), Str '' characters'']"
  by (simp add: exercise1_lines_eq clipboard_emoji_def numbers_emoji_def)

text \<open>In the default run the birth-year line, a derived metric, is line 6 and
  the country line, part of the personal record, is line 11.\<close>

theorem exercise1_birth_year_before_country_counterexample:
  "line_of ''Approximate birth year: '' (exercise1_lines exercise1_defaults) = 6
   \<and> line_of ''Country: '' (exercise1_lines exercise1_defaults) = 11
   \<and> exercise1_lines exercise1_defaults ! 6 = [Str ''Approximate birth year: '', IntV 2025]
   \<and> exercise1_lines exercise1_defaults ! 11 = [Str ''Country: '', Str ''Your Country'']"
  by (simp add: exercise1_lines_eq exercise1_defaults_def clipboard_emoji_def)

text \<open>
  Claim C4. With age 30 and height 1.75 (whatever the other fields), Component B
  prints birth year 1995, height in centimetres 175.0, days lived 10950 and
  height in inches 68.8975, the exact product of 1.75 and 39.37.
\<close>

theorem exercise1_age_30_height_175:
  "exercise1_lines (p\<lparr>age := 30, height := 1.75\<rparr>) ! 6 =
       [Str ''Approximate birth year: '', IntV 1995]
   \<and> exercise1_lines (p\<lparr>age := 30, height := 1.75\<rparr>) ! 7 =
       [Str ''Height: '', DblV ff_general 6 1.75, Str ''m ('', DblV ff_general 6 175.0,
        Str ''cm)'']
   \<and> exercise1_lines (p\<lparr>age := 30, height := 1.75\<rparr>) ! 14 =
       [Str ''Days lived (approximately): '', IntV 10950, Str '' days'']
   \<and> exercise1_lines (p\<lparr>age := 30, height := 1.75\<rparr>) ! 15 =
       [Str ''Height in inches (approximately): '', DblV ff_general 6 68.8975,
        Str '' inches'']"
  by (simp add: exercise1_lines_eq)



text \<open>
  Claim C9. Component B prints the \<^verbatim>\<open>isLearning\<close> flag as the string
  \<^verbatim>\<open>"Yes!"\<close> when it is true and \<^verbatim>\<open>"No"\<close> when it is false; no boolean is
  inserted into the stream as such. Changing the flag changes this one line
  and nothing else. For every personal record the run prints the same 19
  lines, each the same sequence of operands: fixed strings, fields of the
  record and the four arithmetic expressions over them. The choice between
  \<^verbatim>\<open>"Yes!"\<close> and \<^verbatim>\<open>"No"\<close> is the only place where an operand is selected
  by a condition on the data, so the program has no other branch on its data.
\<close>

theorem isLearning_rendering:
  "exercise1_lines p ! 9 =
       [Str ''Currently learning C++: '', Str (if isLearning p then ''Yes!'' else ''No'')]
   \<and> exercise1_lines (p\<lparr>isLearning := True\<rparr>) ! 9 =
       [Str ''Currently learning C++: '', Str ''Yes!'']
   \<and> exercise1_lines (p\<lparr>isLearning := False\<rparr>) ! 9 =
       [Str ''Currently learning C++: '', Str ''No'']
   \<and> BoolV a c \<notin> set (out (fst (exercise1_main p cout)))
   \<and> exercise1_lines (p\<lparr>isLearning := b\<rparr>) =
       (exercise1_lines p)
         [9 := [Str ''Currently learning C++: '', Str (if b then ''Yes!'' else ''No'')]]
   \<and> exercise1_lines p =
       [[Str ''=== Exercise 1: Personal Information Program ===''],
        [Str ''Fill in your own information by modifying the variables below:''],
        [],
        [Str (clipboard_emoji @ '' Personal Information:'')],
        [Str ''Name: '', Str (name p)],
        [Str ''Age: '', IntV (sint (age p)), Str '' years old''],
        [Str ''Approximate birth year: '', IntV (sint (2025 - age p))],
        [Str ''Height: '', DblV ff_general 6 (height p), Str ''m ('',
          DblV ff_general 6 (height p * 100), Str ''cm)''],
        [Str ''Favorite grade: '', Chr (grade p)],
        [Str ''Currently learning C++: '', Str (if isLearning p then ''Yes!'' else ''No'')],
        [Str ''Favorite hobby: '', Str (hobby p)],
        [Str ''Country: '', Str (COUNTRY p)],
        [],
        [Str (numbers_emoji @ '' Fun Calculations:'')],
        [Str ''Days lived (approximately): '', IntV (sint (age p * 365)), Str '' days''],
        [Str ''Height in inches (approximately): '', DblV ff_general 6 (height p * 39.37),
          Str '' inches''],
        [Str ''Name length: '', IntV (int (length (name p))), Str '' characters''],
        [],
        [Str exercise1_closing]]"
  by (simp add: exercise1_lines_eq exercise1_out cout_def)

section \<open>Component A: the claims\<close>

text \<open>
  Claim C3 (holds in part). In Component A's scope demonstration the outer
  value is first printed inside the block, as the block's first line, and
  printed again after the block; nothing printed before the block depends on
  it. The block-local value is printed on the block's second line, which comes
  strictly before the post-block outer-value line, and what is printed after
  the block (the outer-value line, an empty line and the closing line) does
  not contain the block-local value.
\<close>

theorem scope_demo_output:
  "out (at_block_exit v) = out (at_block_entry v) @
       [Str ''Inside block - globalVar: '', IntV (sint (globalVar v)), Endl,
        Str ''Inside block - localVar: '', IntV (sint (localVar v)), Endl]
   \<and> out (fst (lesson1_main v cout)) = out (at_block_exit v) @
       [Str ''Outside block - globalVar: '', IntV (sint (globalVar v)), Endl,
        Endl,
        Str lesson1_closing, Endl]
   \<and> out (at_block_entry (v\<lparr>globalVar := g, localVar := l\<rparr>)) = out (at_block_entry v)
   \<and> line_of ''Inside block - globalVar: '' (lesson1_lines v) = 37
   \<and> line_of ''Inside block - localVar: '' (lesson1_lines v) = 38
   \<and> line_of ''Outside block - globalVar: '' (lesson1_lines v) = 39"
  by (simp add: lesson1_main_split at_block_exit_def scope_block_out after_block_out
      at_block_entry_def before_block_out lesson1_lines_eq squote_def dquote_def)

text \<open>In the run with the source's values, no line printed before the block is
  labelled \<^verbatim>\<open>globalVar\<close>, changing the outer value changes nothing printed
  before the block, and the first line that prints it is the block's own.\<close>

theorem scope_demo_outer_not_before_block_counterexample:
  "labelled_lines ''globalVar'' (lines_of (at_block_entry lesson1_defaults)) = 0
   \<and> out (at_block_entry (lesson1_defaults\<lparr>globalVar := 12345\<rparr>))
       = out (at_block_entry lesson1_defaults)
   \<and> out (at_block_exit lesson1_defaults) = out (at_block_entry lesson1_defaults) @
       [Str ''Inside block - globalVar: '', IntV 100, Endl,
        Str ''Inside block - localVar: '', IntV 200, Endl]"
  by code_simp

text \<open>
  Claim C6 (holds except for one variable). With the source's values, every
  declared variable of Component A is named on exactly one output line, except
  \<^verbatim>\<open>globalVar\<close>, which is named on two (inside the block and after it). For
  all values, the eight section headers appear in the order integers,
  floating point, character, boolean, string, constants, inferred types,
  scope; and in the floating-point section \<^verbatim>\<open>price\<close> and \<^verbatim>\<open>distance\<close> are
  inserted in fixed notation with precision 2, \<^verbatim>\<open>precise\<close> after them with
  precision 10.
\<close>

theorem lesson1_labels_sections_precision:
  "map (\<lambda>x. labelled_lines x (lesson1_lines lesson1_defaults))
      [''age'', ''smallNumber'', ''largeNumber'', ''veryLarge'', ''price'', ''distance'',
       ''precise'', ''grade'', ''symbol'', ''isStudent'', ''hasLicense'', ''firstName'',
       ''lastName'', ''fullName'', ''PI'', ''DAYS_IN_WEEK'', ''autoInt'', ''autoDouble'',
       ''autoString'', ''globalVar'', ''localVar'']
    = [1, 1, 1, 1, 1, 1, 1, 1, 1, 1, 1, 1, 1, 1, 1, 1, 1, 1, 1, 2, 1]
   \<and> map (\<lambda>h. line_of h (lesson1_lines v))
      [''1. INTEGER TYPES:'', ''2. FLOATING POINT TYPES:'', ''3. CHARACTER TYPE:'',
       ''4. BOOLEAN TYPE:'', ''5. STRING TYPE:'', ''6. CONSTANTS:'',
       ''7. AUTO KEYWORD (Modern C++):'', ''8. VARIABLE SCOPE:'']
    = [2, 8, 13, 17, 21, 27, 31, 36]
   \<and> lesson1_lines v ! 9 = [Str ''float price = $'', DblV ff_fixed 2 (price v)]
   \<and> lesson1_lines v ! 10 =
       [Str ''double distance = '', DblV ff_fixed 2 (distance v), Str '' km'']
   \<and> lesson1_lines v ! 11 = [Str ''long double precise = '', DblV ff_fixed 10 (precise v)]"
proof -
  have "map (\<lambda>x. labelled_lines x (lesson1_lines lesson1_defaults))
      [''age'', ''smallNumber'', ''largeNumber'', ''veryLarge'', ''price'', ''distance'',
       ''precise'', ''grade'', ''symbol'', ''isStudent'', ''hasLicense'', ''firstName'',
       ''lastName'', ''fullName'', ''PI'', ''DAYS_IN_WEEK'', ''autoInt'', ''autoDouble'',
       ''autoString'', ''globalVar'', ''localVar'']
    = [1, 1, 1, 1, 1, 1, 1, 1, 1, 1, 1, 1, 1, 1, 1, 1, 1, 1, 1, 2, 1]"
    by code_simp
  then show ?thesis
    by (simp add: lesson1_lines_eq squote_def dquote_def)
qed

text \<open>With the source's values two lines are labelled \<^verbatim>\<open>globalVar\<close>: line 37,
  inside the block, and line 39, after it.\<close>

theorem lesson1_globalVar_two_lines_counterexample:
  "labelled_lines ''globalVar'' (lesson1_lines lesson1_defaults) = 2
   \<and> lesson1_lines lesson1_defaults ! 37 = [Str ''Inside block - globalVar: '', IntV 100]
   \<and> lesson1_lines lesson1_defaults ! 39 = [Str ''Outside block - globalVar: '', IntV 100]"
  by code_simp

text \<open>
  Claim C10. In Component A's string section the full name printed is the first
  name, a space and the last name, and the length printed on the next line is
  the length of the first name plus the length of the last name plus 1; with
  the source's \<^verbatim>\<open>"John"\<close> and \<^verbatim>\<open>"Doe"\<close> it is 8.
\<close>

theorem fullName_length:
  "lesson1_lines v ! 24 =
       [Str (''std::string fullName = '' @ dquote), Str (firstName v @ '' '' @ lastName v),
        Str dquote]
   \<and> lesson1_lines v ! 25 =
       [Str ''String length: '', IntV (int (length (firstName v) + length (lastName v) + 1)),
        Str '' characters'']
   \<and> lesson1_lines lesson1_defaults ! 25 =
       [Str ''String length: '', IntV 8, Str '' characters'']"
  by (simp add: lesson1_lines_eq lesson1_defaults_def)

section \<open>Both components: the claims\<close>

text \<open>
  Claim C7. Two runs of a component with the same values of its variables
  write the same operands in the same order and return the same status. This
  holds for separate runs, each started on \<open>cout\<close>, and also when the second
  run continues on the stream the first one leaves behind: Component A sets
  every format flag before the first operand that flag applies to, and
  Component B sets none, so the second run writes again exactly what the
  first one wrote.
\<close>

theorem runs_identical:
  assumes "va = vb" and "pa = pb"
  shows "out (fst (lesson1_main va cout)) = out (fst (lesson1_main vb cout))
    \<and> snd (lesson1_main va cout) = snd (lesson1_main vb cout)
    \<and> out (fst (exercise1_main pa cout)) = out (fst (exercise1_main pb cout))
    \<and> snd (exercise1_main pa cout) = snd (exercise1_main pb cout)
    \<and> out (fst (lesson1_main vb (fst (lesson1_main va cout))))
        = out (fst (lesson1_main va cout)) @ out (fst (lesson1_main va cout))
    \<and> out (fst (exercise1_main pb (fst (exercise1_main pa cout))))
        = out (fst (exercise1_main pa cout)) @ out (fst (exercise1_main pa cout))"
  using assms
  by (simp add: lesson1_out before_block_out exercise1_out exercise1_flags cout_def)

text \<open>Both components run twice in a row with the source's values.\<close>

theorem runs_identical_witness:
  "out (fst (lesson1_main lesson1_defaults (fst (lesson1_main lesson1_defaults cout))))
     = out (fst (lesson1_main lesson1_defaults cout))
       @ out (fst (lesson1_main lesson1_defaults cout))
   \<and> out (fst (exercise1_main exercise1_defaults
              (fst (exercise1_main exercise1_defaults cout))))
     = out (fst (exercise1_main exercise1_defaults cout))
       @ out (fst (exercise1_main exercise1_defaults cout))"
  using runs_identical [of lesson1_defaults lesson1_defaults
      exercise1_defaults exercise1_defaults]
  by simp

text \<open>
  Claim C8. Each component is a total function of its values and the stream:
  it always returns, the status it returns is 0 whatever the values and the
  stream, the last thing it writes is a \<^verbatim>\<open>std::endl\<close>, and the last line of
  a run is the component's fixed closing line.
\<close>

theorem components_exit_success:
  "snd (lesson1_main v os) = 0
   \<and> snd (exercise1_main p os) = 0
   \<and> last (lesson1_lines v) = [Str lesson1_closing]
   \<and> last (exercise1_lines p) = [Str exercise1_closing]
   \<and> last (out (fst (lesson1_main v os))) = Endl
   \<and> last (out (fst (exercise1_main p os))) = Endl"
  by (simp add: lesson1_status exercise1_status lesson1_lines_eq exercise1_lines_eq
      lesson1_out exercise1_out)

end
